theory Spec2Isabelle
  imports Main "HOL-Library.Sublist"
begin

section \<open>JavaScript values used by the two scripts\<close>

text \<open>
  JavaScript strings are modelled as HOL strings. Every string the routing workflow
  compares is ASCII; the few non-ASCII characters of the SQL assistant's texts are
  written as their UTF-8 bytes.
\<close>

text \<open>
  \<^verbatim>\<open>String.prototype.includes(searchString)\<close>: true iff \<open>searchString\<close> occurs
  somewhere in the receiver as a contiguous run of characters (the empty string
  occurs in every string).
\<close>

fun str_includes :: "string \<Rightarrow> string \<Rightarrow> bool" where
  "str_includes [] sub = (sub = [])"
| "str_includes (c # cs) sub = (prefix sub (c # cs) \<or> str_includes cs sub)"

text \<open>
  \<^verbatim>\<open>Array.prototype.at(-1)\<close>: the last element, \<open>undefined\<close> (here \<open>None\<close>) on the
  empty array.
\<close>

definition at_minus1 :: "'a list \<Rightarrow> 'a option" where
  "at_minus1 xs = (if xs = [] then None else Some (last xs))"

text \<open>\<^verbatim>\<open>Array.prototype.slice(0, -1)\<close>: all elements but the last.\<close>

definition slice_0_minus1 :: "'a list \<Rightarrow> 'a list" where
  "slice_0_minus1 xs = take (length xs - 1) xs"

section \<open>Messages, state and the model client (dev/agent.ts)\<close>

text \<open>The message kinds of the message library, as \<^verbatim>\<open>_getType()\<close> reports them.\<close>

datatype message_type = Human | Ai | System | Tool | Function | Generic

fun type_name :: "message_type \<Rightarrow> string" where
  "type_name Human = ''human''"
| "type_name Ai = ''ai''"
| "type_name System = ''system''"
| "type_name Tool = ''tool''"
| "type_name Function = ''function''"
| "type_name Generic = ''generic''"

text \<open>
  A message: its kind, its text and its identifier (the \<^verbatim>\<open>id\<close> property, which a
  message built without one does not have).
\<close>

record message =
  mtype :: message_type
  content :: string
  message_id :: "string option"

definition getType :: "message \<Rightarrow> string" where
  "getType m = type_name (mtype m)"

definition SystemMessage :: "string \<Rightarrow> message" where
  "SystemMessage c = \<lparr>mtype = System, content = c, message_id = None\<rparr>"

definition HumanMessage :: "string \<Rightarrow> message" where
  "HumanMessage c = \<lparr>mtype = Human, content = c, message_id = None\<rparr>"

text \<open>
  \<^verbatim>\<open>StateAnnotation\<close>: the message list of \<^verbatim>\<open>MessagesAnnotation\<close> and two
  last-value channels, which hold no value until some update writes them.
\<close>

record state =
  messages :: "message list"
  nextRepresentative :: "string option"
  refundAuthorized :: "bool option"

text \<open>
  What a node returns: a partial state. A channel that the returned object does not
  name is \<open>None\<close>. The messages channel accepts one message or an array of them.
\<close>

datatype messages_update = Single message | Several "message list"

record update =
  upd_messages :: "messages_update option"
  upd_nextRepresentative :: "string option"
  upd_refundAuthorized :: "bool option"

datatype error =
  TypeError
  | InvocationFailed string
  | SchemaViolation string
  | UnknownNode string

text \<open>
  \<^verbatim>\<open>PROMPT\<close> is imported from \<^verbatim>\<open>./prompts\<close>; its four texts are parameters.
\<close>

record prompts =
  init_system :: string
  routing_system :: string
  routing_user :: string
  certification_system :: string

text \<open>
  The model client \<^verbatim>\<open>ChatTogetherLLM\<close> is imported from \<^verbatim>\<open>../lib/llms\<close> and is a
  parameter: \<open>invoke\<close> answers a message list with a message or fails with a reason;
  \<open>tool_call\<close> is the same model bound to the \<^verbatim>\<open>RouteUserRequest\<close> tool and gives
  the raw value of the \<^verbatim>\<open>nextRepresentative\<close> argument, before schema validation.
\<close>

record llm =
  invoke :: "message list \<Rightarrow> string + message"
  tool_call :: "message list \<Rightarrow> string + string"

text \<open>Every invocation of the model is recorded with the messages it received.\<close>

datatype call = Invoke "message list" | StructuredInvoke "message list"

text \<open>\<^verbatim>\<open>routingSchema\<close>: \<^verbatim>\<open>z.enum(["RESPOND", "CERTIFICATION"])\<close>.\<close>

definition routingSchema_options :: "string list" where
  "routingSchema_options = [''RESPOND'', ''CERTIFICATION'']"

definition routingSchema :: "string \<Rightarrow> error + string" where
  "routingSchema v = (if v \<in> set routingSchema_options then Inr v else Inl (SchemaViolation v))"

text \<open>
  \<^verbatim>\<open>llm.withStructuredOutput(routingSchema, ...)\<close>: invoke the tool-bound model and
  validate its answer against the schema; a violation is thrown.
\<close>

definition structuredOutputModel :: "llm \<Rightarrow> message list \<Rightarrow> error + string" where
  "structuredOutputModel m msgs =
     (case tool_call m msgs of
        Inl reason \<Rightarrow> Inl (InvocationFailed reason)
      | Inr v \<Rightarrow> routingSchema v)"

section \<open>The two workflow steps\<close>

definition routingMessages :: "prompts \<Rightarrow> state \<Rightarrow> message list" where
  "routingMessages p s =
     [SystemMessage (routing_system p)] @ messages s @ [HumanMessage (routing_user p)]"

definition initialSupport :: "prompts \<Rightarrow> llm \<Rightarrow> state \<Rightarrow> call list \<times> (error + update)" where
  "initialSupport p m s =
     (let supportInput = SystemMessage (init_system p) # messages s in
      case invoke m supportInput of
        Inl reason \<Rightarrow> ([Invoke supportInput], Inl (InvocationFailed reason))
      | Inr supportResponse \<Rightarrow>
          (let calls = [Invoke supportInput, StructuredInvoke (routingMessages p s)] in
           case structuredOutputModel m (routingMessages p s) of
             Inl e \<Rightarrow> (calls, Inl e)
           | Inr routingResponse \<Rightarrow>
               (calls, Inr \<lparr>upd_messages = Some (Several [supportResponse]),
                            upd_nextRepresentative = Some routingResponse,
                            upd_refundAuthorized = None\<rparr>)))"

text \<open>
  Lines 43 to 48: the guard calls \<^verbatim>\<open>_getType\<close> on the result of \<^verbatim>\<open>at(-1)\<close>, which
  throws a TypeError when that result is \<open>undefined\<close>.
\<close>

definition trimmedHistory :: "state \<Rightarrow> error + message list" where
  "trimmedHistory s =
     (case at_minus1 (messages s) of
        None \<Rightarrow> Inl TypeError
      | Some lastMessage \<Rightarrow>
          if getType lastMessage = ''ai'' then Inr (slice_0_minus1 (messages s))
          else Inr (messages s))"

definition certificationSupport :: "prompts \<Rightarrow> llm \<Rightarrow> state \<Rightarrow> call list \<times> (error + update)" where
  "certificationSupport p m s =
     (case trimmedHistory s of
        Inl e \<Rightarrow> ([], Inl e)
      | Inr history \<Rightarrow>
          (let certificationInput = SystemMessage (certification_system p) # history in
           case invoke m certificationInput of
             Inl reason \<Rightarrow> ([Invoke certificationInput], Inl (InvocationFailed reason))
           | Inr response \<Rightarrow>
               ([Invoke certificationInput],
                Inr \<lparr>upd_messages = Some (Single response),
                     upd_nextRepresentative = None,
                     upd_refundAuthorized = None\<rparr>)))"

section \<open>The conditional edge\<close>

text \<open>
  The routing function of \<^verbatim>\<open>addConditionalEdges\<close>; calling \<^verbatim>\<open>includes\<close> on a
  channel without a value throws a TypeError.
\<close>

definition router :: "state \<Rightarrow> error + string" where
  "router s =
     (case nextRepresentative s of
        None \<Rightarrow> Inl TypeError
      | Some label \<Rightarrow>
          if str_includes label ''CERTIFICATION'' then Inr ''certification''
          else Inr ''conversational'')"

text \<open>The path map given to \<^verbatim>\<open>addConditionalEdges\<close>.\<close>

definition pathMap :: "string \<rightharpoonup> string" where
  "pathMap = map_of [(''certification'', ''certification_support''),
                     (''conversational'', ''__end__'')]"

section \<open>The compiled workflow\<close>

text \<open>
  The reducer of the messages channel (\<^verbatim>\<open>MessagesAnnotation.spec\<close>), by the contract
  of the graph library: the returned messages are merged into the history one by one;
  a message whose identifier is already in the history replaces the message at that
  position, any other message is appended. The library gives a message without
  identifier a fresh random one, which equals no identifier in the history: here such
  a message stays without identifier and matches nothing. Removal markers are not
  among the message kinds of this model; no step of this program builds one.
\<close>

text \<open>The position of the last message of the list that carries the identifier.\<close>

fun id_index :: "string \<Rightarrow> message list \<Rightarrow> nat option" where
  "id_index i [] = None"
| "id_index i (x # xs) =
     (case id_index i xs of
        Some k \<Rightarrow> Some (Suc k)
      | None \<Rightarrow> if message_id x = Some i then Some 0 else None)"

definition merge_message :: "message list \<Rightarrow> message \<Rightarrow> message list" where
  "merge_message merged m =
     (case message_id m of
        None \<Rightarrow> merged @ [m]
      | Some i \<Rightarrow>
          (case id_index i merged of
             None \<Rightarrow> merged @ [m]
           | Some existingIdx \<Rightarrow> merged[existingIdx := m]))"

definition messagesStateReducer :: "message list \<Rightarrow> messages_update \<Rightarrow> message list" where
  "messagesStateReducer left right =
     foldl merge_message left (case right of Single m \<Rightarrow> [m] | Several ms \<Rightarrow> ms)"

text \<open>A message is fresh for a history when its identifier, if it has one, is not in it.\<close>

definition fresh_id :: "message \<Rightarrow> message list \<Rightarrow> bool" where
  "fresh_id m ms =
     (case message_id m of
        None \<Rightarrow> True
      | Some i \<Rightarrow> Some i \<notin> set (map message_id ms))"

text \<open>A channel that the update does not name keeps its value.\<close>

definition applyUpdate :: "state \<Rightarrow> update \<Rightarrow> state" where
  "applyUpdate s u =
     \<lparr>messages = (case upd_messages u of
                     None \<Rightarrow> messages s
                   | Some right \<Rightarrow> messagesStateReducer (messages s) right),
      nextRepresentative = (case upd_nextRepresentative u of
                              None \<Rightarrow> nextRepresentative s
                            | Some v \<Rightarrow> Some v),
      refundAuthorized = (case upd_refundAuthorized u of
                            None \<Rightarrow> refundAuthorized s
                          | Some v \<Rightarrow> Some v)\<rparr>"

text \<open>The two \<^verbatim>\<open>addNode\<close> calls.\<close>

definition workflow_nodes ::
  "prompts \<Rightarrow> llm \<Rightarrow> string \<rightharpoonup> (state \<Rightarrow> call list \<times> (error + update))" where
  "workflow_nodes p m =
     map_of [(''initial_support'', initialSupport p m),
             (''certification_support'', certificationSupport p m)]"

text \<open>
  The edges: \<^verbatim>\<open>__start__\<close> to \<^verbatim>\<open>initial_support\<close>, the conditional edge out of
  \<^verbatim>\<open>initial_support\<close>, and \<^verbatim>\<open>certification_support\<close> to \<^verbatim>\<open>__end__\<close>.
\<close>

definition workflow_edge :: "string \<Rightarrow> state \<Rightarrow> error + string" where
  "workflow_edge n s =
     (if n = ''__start__'' then Inr ''initial_support''
      else if n = ''initial_support'' then
        (case router s of
           Inl e \<Rightarrow> Inl e
         | Inr edge \<Rightarrow>
             (case pathMap edge of
                None \<Rightarrow> Inl (UnknownNode edge)
              | Some target \<Rightarrow> Inr target))
      else if n = ''certification_support'' then Inr ''__end__''
      else Inl (UnknownNode n))"

text \<open>Running one node: its update is merged into the state; an exception stops the run.\<close>

definition run_node :: "prompts \<Rightarrow> llm \<Rightarrow> string \<Rightarrow> state \<Rightarrow> call list \<times> (error + state)" where
  "run_node p m n s =
     (if n = ''__start__'' then ([], Inr s)
      else case workflow_nodes p m n of
        None \<Rightarrow> ([], Inl (UnknownNode n))
      | Some node \<Rightarrow>
          (case node s of
             (cs, Inl e) \<Rightarrow> (cs, Inl e)
           | (cs, Inr u) \<Rightarrow> (cs, Inr (applyUpdate s u))))"

record run =
  visited :: "string list"
  calls :: "call list"
  outcome :: "error + state"

definition extend_run :: "string \<Rightarrow> call list \<Rightarrow> run \<Rightarrow> run" where
  "extend_run n cs r = r\<lparr>visited := n # visited r, calls := cs @ calls r\<rparr>"

text \<open>
  The execution of the compiled graph from node \<open>n\<close>, one node at a time, with a bound
  on the number of nodes entered; \<open>None\<close> when the bound is reached before the run ends.
\<close>

fun run_from :: "nat \<Rightarrow> prompts \<Rightarrow> llm \<Rightarrow> string \<Rightarrow> state \<Rightarrow> run option" where
  "run_from 0 p m n s = None"
| "run_from (Suc k) p m n s =
     (if n = ''__end__'' then Some \<lparr>visited = [n], calls = [], outcome = Inr s\<rparr>
      else case run_node p m n s of
        (cs, Inl e) \<Rightarrow> Some \<lparr>visited = [n], calls = cs, outcome = Inl e\<rparr>
      | (cs, Inr s') \<Rightarrow>
          (case workflow_edge n s' of
             Inl e \<Rightarrow> Some \<lparr>visited = [n], calls = cs, outcome = Inl e\<rparr>
           | Inr n' \<Rightarrow> map_option (extend_run n cs) (run_from k p m n' s')))"

text \<open>\<^verbatim>\<open>app.stream(input, config)\<close>: the run from \<^verbatim>\<open>__start__\<close> on the thread's state.\<close>

definition app_stream :: "nat \<Rightarrow> prompts \<Rightarrow> llm \<Rightarrow> state \<Rightarrow> run option" where
  "app_stream k p m s = run_from k p m ''__start__'' s"

definition is_assistant :: "message \<Rightarrow> bool" where
  "is_assistant msg = (getType msg = ''ai'')"

definition assistant_messages :: "state \<Rightarrow> message list" where
  "assistant_messages s = filter is_assistant (messages s)"

text \<open>The number of assistant-authored messages in the final state of a finished run.\<close>

definition assistant_count :: "run option \<Rightarrow> nat option" where
  "assistant_count r =
     (case r of
        None \<Rightarrow> None
      | Some f \<Rightarrow> (case outcome f of Inl e \<Rightarrow> None | Inr s \<Rightarrow> Some (length (assistant_messages s))))"

section \<open>The SQL assistant bootstrap (sqltool/index.ts)\<close>

record tool =
  tool_name :: string
  tool_description :: string

text \<open>
  The external collaborators of the script: whether \<^verbatim>\<open>datasource.initialize()\<close>
  rejects (with which error), whether \<^verbatim>\<open>SqlDatabase.fromDataSourceParams\<close> rejects,
  and the tools that the toolkit derives from the database.
\<close>

record environment =
  initialize :: "string option"
  fromDataSourceParams :: "string option"
  getTools :: "tool list"

datatype effect =
  Initialize
  | ConsoleLog string
  | ConsoleError string string
  | ProcessExit nat
  | FromDataSourceParams
  | NewSqlToolkit
  | GetTools
  | ConsoleLogTools "tool list"
  | CreateReactAgent

datatype script_end = Exited nat | Uncaught string | Completed

definition connected_text :: string where
  "connected_text = ''Supabase '' @ [CHR 0xEB, CHR 0x8D, CHR 0xB0, CHR 0xEC, CHR 0x9D, CHR 0xB4, CHR 0xED, CHR 0x84, CHR 0xB0, CHR 0xEB, CHR 0xB2, CHR 0xA0, CHR 0xEC, CHR 0x9D, CHR 0xB4, CHR 0xEC, CHR 0x8A, CHR 0xA4, CHR 0xEC, CHR 0x97, CHR 0x90] @ '' '' @ [CHR 0xEC, CHR 0x84, CHR 0xB1, CHR 0xEA, CHR 0xB3, CHR 0xB5, CHR 0xEC, CHR 0xA0, CHR 0x81, CHR 0xEC, CHR 0x9C, CHR 0xBC, CHR 0xEB, CHR 0xA1, CHR 0x9C] @ '' '' @ [CHR 0xEC, CHR 0x97, CHR 0xB0, CHR 0xEA, CHR 0xB2, CHR 0xB0, CHR 0xEB, CHR 0x90, CHR 0x98, CHR 0xEC, CHR 0x97, CHR 0x88, CHR 0xEC, CHR 0x8A, CHR 0xB5, CHR 0xEB, CHR 0x8B, CHR 0x88, CHR 0xEB, CHR 0x8B, CHR 0xA4] @ ''.''"

definition connect_error_text :: string where
  "connect_error_text = [CHR 0xEB, CHR 0x8D, CHR 0xB0, CHR 0xEC, CHR 0x9D, CHR 0xB4, CHR 0xED, CHR 0x84, CHR 0xB0, CHR 0xEB, CHR 0xB2, CHR 0xA0, CHR 0xEC, CHR 0x9D, CHR 0xB4, CHR 0xEC, CHR 0x8A, CHR 0xA4] @ '' '' @ [CHR 0xEC, CHR 0x97, CHR 0xB0, CHR 0xEA, CHR 0xB2, CHR 0xB0] @ '' '' @ [CHR 0xEC, CHR 0xA4, CHR 0x91] @ '' '' @ [CHR 0xEC, CHR 0x98, CHR 0xA4, CHR 0xEB, CHR 0xA5, CHR 0x98] @ '' '' @ [CHR 0xEB, CHR 0xB0, CHR 0x9C, CHR 0xEC, CHR 0x83, CHR 0x9D] @ '': ''"

text \<open>
  The top-level statements in order, with the effects they perform; \<^verbatim>\<open>process.exit\<close>
  ends the process at once, and a rejection outside the \<^verbatim>\<open>try\<close> block is uncaught.
\<close>

definition bootstrap :: "environment \<Rightarrow> effect list \<times> script_end" where
  "bootstrap env =
     (case initialize env of
        Some err \<Rightarrow>
          ([Initialize, ConsoleError connect_error_text err, ProcessExit 1], Exited 1)
      | None \<Rightarrow>
          (case fromDataSourceParams env of
             Some err \<Rightarrow>
               ([Initialize, ConsoleLog connected_text, FromDataSourceParams], Uncaught err)
           | None \<Rightarrow>
               ([Initialize, ConsoleLog connected_text, FromDataSourceParams, NewSqlToolkit,
                 GetTools, ConsoleLogTools (getTools env), CreateReactAgent], Completed)))"

text \<open>
  The template literal \<^verbatim>\<open>systemPrompt\<close>, with its escape sequences resolved and
  one line of the source per line.
\<close>

definition systemPrompt :: string where
  "systemPrompt =
     ''\<newline>''
   @ ''You are a helpful assistant that can answer questions about the 'kc_certification' of 'product' based on 'certification' table. \<newline>''
   @ ''Answer Users question based on the following **DB SCHEMA** AND **RULES**. \<newline>''
   @ ''\<newline>''
   @ ''## RULES:\<newline>''
   @ ''ALWAYS reply in korean. \<newline>''
   @ ''ALWAYS search the 'product' and 'category' in 'certification' table using exact match first.\<newline>''
   @ ''If the search keyword is not found, retry search after removing spaces or adjusting spacing. \<newline>''
   @ ''ALWAYS SQL query keyword should use ' instead of '' @ [CHR 0x22] @ ''.\<newline>''
   @ ''\<newline>''
   @ ''## DB SCHEMA:\<newline>''
   @ '' 'id' INTEGER\<newline>''
   @ '' 'created_at' DATETIME\<newline>''
   @ '' 'product' TEXT\<newline>''
   @ '' 'category' TEXT\<newline>''
   @ '' 'radio_certification' TEXT\<newline>''
   @ '' 'industry' TEXT\<newline>''
   @ '' 'condition' TEXT\<newline>''
   @ '' 'examples' TEXT\<newline>''
   @ '' 'kc_certification' TEXT\<newline>''
   @ ''\<newline>''
   @ ''## Example Query:\<newline>''
   @ '' '' @ [CHR 0xEC, CHR 0x99, CHR 0x84, CHR 0xEA, CHR 0xB5, CHR 0xAC, CHR 0xEB, CHR 0x8A, CHR 0x94] @ '' '' @ [CHR 0xEC, CHR 0x96, CHR 0xB4, CHR 0xEB, CHR 0x96, CHR 0xA4] @ '' KC'' @ [CHR 0xEC, CHR 0x9D, CHR 0xB8, CHR 0xEC, CHR 0xA6, CHR 0x9D, CHR 0xEC, CHR 0x9D, CHR 0x84] @ '' '' @ [CHR 0xEB, CHR 0xB0, CHR 0x9B, CHR 0xEC, CHR 0x95, CHR 0x84, CHR 0xEC, CHR 0x95, CHR 0xBC, CHR 0xED, CHR 0x95, CHR 0xB4] @ ''?\<newline>''
   @ ''\<newline>''
   @ ''## Answer:\<newline>''
   @ '' '' @ [CHR 0xEC, CHR 0x99, CHR 0x84, CHR 0xEA, CHR 0xB5, CHR 0xAC, CHR 0xEB, CHR 0x8A, CHR 0x94] @ '' ['' @ [CHR 0xEC, CHR 0x96, CHR 0xB4, CHR 0xEB, CHR 0xA6, CHR 0xB0, CHR 0xEC, CHR 0x9D, CHR 0xB4, CHR 0xEC, CHR 0xA0, CHR 0x9C, CHR 0xED, CHR 0x92, CHR 0x88] @ ''] '' @ [CHR 0xEC, CHR 0xB9, CHR 0xB4, CHR 0xED, CHR 0x85, CHR 0x8C, CHR 0xEA, CHR 0xB3, CHR 0xA0, CHR 0xEB, CHR 0xA6, CHR 0xAC, CHR 0xEC, CHR 0x97, CHR 0x90] @ '' '' @ [CHR 0xEC, CHR 0x86, CHR 0x8D, CHR 0xED, CHR 0x95, CHR 0x98, CHR 0xEB, CHR 0xA9, CHR 0xB0] @ '' ['' @ [CHR 0xEC, CHR 0x95, CHR 0x88, CHR 0xEC, CHR 0xA0, CHR 0x84, CHR 0xED, CHR 0x99, CHR 0x95, CHR 0xEC, CHR 0x9D, CHR 0xB8] @ ''] '' @ [CHR 0xEC, CHR 0x9D, CHR 0xB8, CHR 0xEC, CHR 0xA6, CHR 0x9D, CHR 0xEC, CHR 0x9D, CHR 0x84] @ '' '' @ [CHR 0xEB, CHR 0xB0, CHR 0x9B, CHR 0xEC, CHR 0x95, CHR 0x84, CHR 0xEC, CHR 0x95, CHR 0xBC, CHR 0xED, CHR 0x95, CHR 0xA9, CHR 0xEB, CHR 0x8B, CHR 0x88, CHR 0xEB, CHR 0x8B, CHR 0xA4] @ ''.\<newline>''"

section \<open>Fixtures\<close>

text \<open>
  A stubbed model: it answers every message list with an assistant message whose
  text is the texts it was given, one after the other, and whose identifier is built
  from that text; it classifies every request as \<open>label\<close>.
\<close>

definition stub_reply :: "string \<Rightarrow> message" where
  "stub_reply c = \<lparr>mtype = Ai, content = c, message_id = Some (''run-'' @ c)\<rparr>"

definition stub_llm :: "string \<Rightarrow> llm" where
  "stub_llm label =
     \<lparr>invoke = (\<lambda>msgs. Inr (stub_reply (concat (map content msgs)))),
      tool_call = (\<lambda>msgs. Inr label)\<rparr>"

definition test_prompts :: prompts where
  "test_prompts =
     \<lparr>init_system = ''init'', routing_system = ''route'', routing_user = ''which?'',
      certification_system = ''cert''\<rparr>"

text \<open>A fresh thread with one user question, and a thread that already holds one exchange.\<close>

definition fresh_thread :: state where
  "fresh_thread =
     \<lparr>messages = [HumanMessage ''q1''], nextRepresentative = None, refundAuthorized = None\<rparr>"

definition resumed_thread :: state where
  "resumed_thread =
     \<lparr>messages = [HumanMessage ''q0'', stub_reply ''a0'', HumanMessage ''q1''],
      nextRepresentative = None, refundAuthorized = None\<rparr>"

section \<open>Helper lemmas\<close>

lemma str_includes_iff_sublist: "str_includes s sub \<longleftrightarrow> sublist sub s"
  by (induction s) (simp_all add: sublist_Cons_right)

lemma trimmedHistory_snoc:
  "messages s = history @ [lastMessage] \<Longrightarrow>
   trimmedHistory s =
     Inr (if getType lastMessage = ''ai'' then history else history @ [lastMessage])"
  by (simp add: trimmedHistory_def at_minus1_def slice_0_minus1_def)

lemma trimmedHistory_empty: "messages s = [] \<Longrightarrow> trimmedHistory s = Inl TypeError"
  by (simp add: trimmedHistory_def at_minus1_def)

lemma trimmedHistory_nonempty: "messages s \<noteq> [] \<Longrightarrow> \<exists>h. trimmedHistory s = Inr h"
  by (simp add: trimmedHistory_def at_minus1_def)

lemma certificationSupport_calls:
  "trimmedHistory s = Inr h \<Longrightarrow>
   fst (certificationSupport p m s) = [Invoke (SystemMessage (certification_system p) # h)]"
  by (simp add: certificationSupport_def Let_def split: sum.splits)

lemma certificationSupport_trimmed:
  "trimmedHistory s = Inr h \<Longrightarrow>
   certificationSupport p m s =
     ([Invoke (SystemMessage (certification_system p) # h)],
      case invoke m (SystemMessage (certification_system p) # h) of
        Inl reason \<Rightarrow> Inl (InvocationFailed reason)
      | Inr response \<Rightarrow>
          Inr \<lparr>upd_messages = Some (Single response),
               upd_nextRepresentative = None,
               upd_refundAuthorized = None\<rparr>)"
  by (simp add: certificationSupport_def Let_def split: sum.splits)

lemma initialSupport_success:
  assumes "invoke m (SystemMessage (init_system p) # messages s) = Inr r1"
    and "tool_call m (routingMessages p s) = Inr v"
    and "v \<in> set routingSchema_options"
  shows "initialSupport p m s =
           ([Invoke (SystemMessage (init_system p) # messages s),
             StructuredInvoke (routingMessages p s)],
            Inr \<lparr>upd_messages = Some (Several [r1]),
                 upd_nextRepresentative = Some v,
                 upd_refundAuthorized = None\<rparr>)"
  using assms
  by (simp add: initialSupport_def structuredOutputModel_def routingSchema_def Let_def)

lemma certificationSupport_success:
  assumes "messages s = history @ [lastMessage]"
    and "getType lastMessage = ''ai''"
    and "invoke m (SystemMessage (certification_system p) # history) = Inr r2"
  shows "certificationSupport p m s =
           ([Invoke (SystemMessage (certification_system p) # history)],
            Inr \<lparr>upd_messages = Some (Single r2),
                 upd_nextRepresentative = None,
                 upd_refundAuthorized = None\<rparr>)"
  using assms trimmedHistory_snoc [OF assms(1)]
  by (simp add: certificationSupport_def Let_def)

lemma id_index_absent: "Some i \<notin> set (map message_id ms) \<Longrightarrow> id_index i ms = None"
  by (induction ms) auto

lemma merge_message_fresh: "fresh_id m ms \<Longrightarrow> merge_message ms m = ms @ [m]"
  by (auto simp: fresh_id_def merge_message_def id_index_absent split: option.splits)

lemma reducer_fresh:
  assumes "fresh_id m ms"
  shows "messagesStateReducer ms (Single m) = ms @ [m]"
    and "messagesStateReducer ms (Several [m]) = ms @ [m]"
  using merge_message_fresh [OF assms] by (simp_all add: messagesStateReducer_def)

lemma reducer_replaces:
  assumes "message_id m = Some i" and "id_index i ms = Some k"
  shows "messagesStateReducer ms (Single m) = ms[k := m]"
  using assms by (simp add: messagesStateReducer_def merge_message_def)

section \<open>The certification step trims one trailing assistant message\<close>

text \<open>
  C1: when the history ends with an assistant-authored message, the certification
  step applies the model once, to the certification system prompt followed by the
  history without that one last message, and returns what the model answers to it;
  when the history ends with a user-authored message, the model is applied to the
  system prompt followed by the whole history.
\<close>

theorem certificationSupport_trims_last_assistant:
  assumes "messages s = history @ [lastMessage]"
  shows "(getType lastMessage = ''ai'' \<longrightarrow>
            certificationSupport p m s =
              ([Invoke (SystemMessage (certification_system p) # history)],
               case invoke m (SystemMessage (certification_system p) # history) of
                 Inl reason \<Rightarrow> Inl (InvocationFailed reason)
               | Inr response \<Rightarrow>
                   Inr \<lparr>upd_messages = Some (Single response),
                        upd_nextRepresentative = None,
                        upd_refundAuthorized = None\<rparr>))
       \<and> (getType lastMessage = ''human'' \<longrightarrow>
            certificationSupport p m s =
              ([Invoke (SystemMessage (certification_system p) # messages s)],
               case invoke m (SystemMessage (certification_system p) # messages s) of
                 Inl reason \<Rightarrow> Inl (InvocationFailed reason)
               | Inr response \<Rightarrow>
                   Inr \<lparr>upd_messages = Some (Single response),
                        upd_nextRepresentative = None,
                        upd_refundAuthorized = None\<rparr>))"
proof (intro conjI impI)
  assume "getType lastMessage = ''ai''"
  then have "trimmedHistory s = Inr history"
    using trimmedHistory_snoc [OF assms] by simp
  then show "certificationSupport p m s =
              ([Invoke (SystemMessage (certification_system p) # history)],
               case invoke m (SystemMessage (certification_system p) # history) of
                 Inl reason \<Rightarrow> Inl (InvocationFailed reason)
               | Inr response \<Rightarrow>
                   Inr \<lparr>upd_messages = Some (Single response),
                        upd_nextRepresentative = None,
                        upd_refundAuthorized = None\<rparr>)"
    by (rule certificationSupport_trimmed)
next
  assume "getType lastMessage = ''human''"
  then have "trimmedHistory s = Inr (messages s)"
    using trimmedHistory_snoc [OF assms] assms by simp
  then show "certificationSupport p m s =
              ([Invoke (SystemMessage (certification_system p) # messages s)],
               case invoke m (SystemMessage (certification_system p) # messages s) of
                 Inl reason \<Rightarrow> Inl (InvocationFailed reason)
               | Inr response \<Rightarrow>
                   Inr \<lparr>upd_messages = Some (Single response),
                        upd_nextRepresentative = None,
                        upd_refundAuthorized = None\<rparr>)"
    by (rule certificationSupport_trimmed)
qed

theorem certificationSupport_trims_last_assistant_witness:
  "messages (fresh_thread\<lparr>messages := [HumanMessage ''q1'', stub_reply ''a1'']\<rparr>)
     = [HumanMessage ''q1''] @ [stub_reply ''a1'']
   \<and> getType (stub_reply ''a1'') = ''ai''
   \<and> certificationSupport test_prompts (stub_llm ''CERTIFICATION'')
        (fresh_thread\<lparr>messages := [HumanMessage ''q1'', stub_reply ''a1'']\<rparr>)
       = ([Invoke [SystemMessage ''cert'', HumanMessage ''q1'']],
          Inr \<lparr>upd_messages = Some (Single (stub_reply ''certq1'')),
               upd_nextRepresentative = None, upd_refundAuthorized = None\<rparr>)
   \<and> messages resumed_thread = [HumanMessage ''q0'', stub_reply ''a0''] @ [HumanMessage ''q1'']
   \<and> getType (HumanMessage ''q1'') = ''human''
   \<and> certificationSupport test_prompts (stub_llm ''CERTIFICATION'') resumed_thread
       = ([Invoke [SystemMessage ''cert'', HumanMessage ''q0'', stub_reply ''a0'',
                   HumanMessage ''q1'']],
          Inr \<lparr>upd_messages = Some (Single (stub_reply ''certq0a0q1'')),
               upd_nextRepresentative = None, upd_refundAuthorized = None\<rparr>)"
proof -
  let ?s = "fresh_thread\<lparr>messages := [HumanMessage ''q1'', stub_reply ''a1'']\<rparr>"
  let ?m = "stub_llm ''CERTIFICATION''"
  have a1: "messages ?s = [HumanMessage ''q1''] @ [stub_reply ''a1'']"
    by simp
  have a2: "getType (stub_reply ''a1'') = ''ai''"
    by (simp add: getType_def stub_reply_def)
  have a3: "certificationSupport test_prompts ?m ?s
       = ([Invoke [SystemMessage ''cert'', HumanMessage ''q1'']],
          Inr \<lparr>upd_messages = Some (Single (stub_reply ''certq1'')),
               upd_nextRepresentative = None, upd_refundAuthorized = None\<rparr>)"
    using certificationSupport_trims_last_assistant [OF a1, of test_prompts ?m] a2
    by (simp add: test_prompts_def stub_llm_def SystemMessage_def HumanMessage_def)
  have b1: "messages resumed_thread
              = [HumanMessage ''q0'', stub_reply ''a0''] @ [HumanMessage ''q1'']"
    by (simp add: resumed_thread_def)
  have b2: "getType (HumanMessage ''q1'') = ''human''"
    by (simp add: getType_def HumanMessage_def)
  have b3: "certificationSupport test_prompts ?m resumed_thread
       = ([Invoke [SystemMessage ''cert'', HumanMessage ''q0'', stub_reply ''a0'',
                   HumanMessage ''q1'']],
          Inr \<lparr>upd_messages = Some (Single (stub_reply ''certq0a0q1'')),
               upd_nextRepresentative = None, upd_refundAuthorized = None\<rparr>)"
    using certificationSupport_trims_last_assistant [OF b1, of test_prompts ?m] b2
    by (simp add: resumed_thread_def test_prompts_def stub_llm_def SystemMessage_def
        HumanMessage_def stub_reply_def)
  from a1 a2 a3 b1 b2 b3 show ?thesis
    by (intro conjI)
qed

section \<open>The conditional router\<close>

text \<open>
  C2: for each label of the enumeration, the router returns the certification edge
  when the label is CERTIFICATION and the conversational edge, which the path map
  sends to the end of the workflow, when it is RESPOND.
\<close>

theorem router_enumerated:
  assumes "label \<in> set routingSchema_options"
  shows "router (s\<lparr>nextRepresentative := Some label\<rparr>) =
           Inr (if label = ''CERTIFICATION'' then ''certification'' else ''conversational'')
         \<and> pathMap ''certification'' = Some ''certification_support''
         \<and> pathMap ''conversational'' = Some ''__end__''"
  using assms by (auto simp: router_def routingSchema_options_def pathMap_def)

theorem router_enumerated_witness:
  "''CERTIFICATION'' \<in> set routingSchema_options
   \<and> router (fresh_thread\<lparr>nextRepresentative := Some ''CERTIFICATION''\<rparr>) = Inr ''certification''
   \<and> ''RESPOND'' \<in> set routingSchema_options
   \<and> router (fresh_thread\<lparr>nextRepresentative := Some ''RESPOND''\<rparr>) = Inr ''conversational''"
  using router_enumerated [of "''CERTIFICATION''" fresh_thread]
        router_enumerated [of "''RESPOND''" fresh_thread]
  by (simp add: routingSchema_options_def)

text \<open>
  C3 as stated does not hold: the label BILLING is outside the enumeration, and the
  router's \<^verbatim>\<open>else\<close> branch returns the conversational edge for it, which the path
  map sends to the end of the workflow.
\<close>

theorem router_fallback_counterexample:
  "''BILLING'' \<notin> set routingSchema_options
   \<and> router (fresh_thread\<lparr>nextRepresentative := Some ''BILLING''\<rparr>) = Inr ''conversational''
   \<and> pathMap ''conversational'' = Some ''__end__''"
  by (simp add: routingSchema_options_def router_def pathMap_def)

text \<open>
  C3, amended: the router has a default branch. For every label outside the
  enumeration it still returns one of the two edges, and the conditional edge out of
  the initial node leads to the certification node or to the end of the workflow.
\<close>

theorem router_handles_every_label:
  assumes "label \<notin> set routingSchema_options"
  shows "(router (s\<lparr>nextRepresentative := Some label\<rparr>) = Inr ''certification''
          \<or> router (s\<lparr>nextRepresentative := Some label\<rparr>) = Inr ''conversational'')
       \<and> (workflow_edge ''initial_support'' (s\<lparr>nextRepresentative := Some label\<rparr>)
             = Inr ''certification_support''
          \<or> workflow_edge ''initial_support'' (s\<lparr>nextRepresentative := Some label\<rparr>)
             = Inr ''__end__'')"
  by (simp add: router_def workflow_edge_def pathMap_def)

theorem router_handles_every_label_witness:
  "''BILLING'' \<notin> set routingSchema_options
   \<and> workflow_edge ''initial_support'' (fresh_thread\<lparr>nextRepresentative := Some ''BILLING''\<rparr>)
       = Inr ''__end__''"
  using router_handles_every_label [of "''BILLING''" fresh_thread]
  by (simp add: routingSchema_options_def router_def workflow_edge_def pathMap_def)

text \<open>
  C10: the router decides by substring containment. A label that contains
  CERTIFICATION as a contiguous substring gets the certification edge, every other
  label the conversational edge; NOT_CERTIFICATION, which is outside the
  enumeration, gets the certification edge.
\<close>

theorem router_substring:
  "router (s\<lparr>nextRepresentative := Some label\<rparr>) =
     (if (\<exists>before after. label = before @ ''CERTIFICATION'' @ after)
      then Inr ''certification'' else Inr ''conversational'')
   \<and> ''NOT_CERTIFICATION'' \<notin> set routingSchema_options
   \<and> router (s\<lparr>nextRepresentative := Some ''NOT_CERTIFICATION''\<rparr>) = Inr ''certification''"
proof -
  have general: "router (s\<lparr>nextRepresentative := Some label\<rparr>) =
     (if (\<exists>before after. label = before @ ''CERTIFICATION'' @ after)
      then Inr ''certification'' else Inr ''conversational'')"
    by (simp add: router_def str_includes_iff_sublist sublist_def)
  have outside: "''NOT_CERTIFICATION'' \<notin> set routingSchema_options"
    by (simp add: routingSchema_options_def)
  have inst: "router (s\<lparr>nextRepresentative := Some ''NOT_CERTIFICATION''\<rparr>) = Inr ''certification''"
    by (simp add: router_def)
  from general outside inst show ?thesis by (intro conjI)
qed

section \<open>The initial step\<close>

text \<open>
  C6: when the reply invocation has returned, the classification invocation of the
  initial step is applied to the routing system prompt, then the message history in
  order, then the routing instruction as a final user turn, and the step returns
  what that invocation answers; a label that it returns is RESPOND or CERTIFICATION,
  and any other answer is refused.
\<close>

theorem initialSupport_classification_input:
  assumes "invoke m (SystemMessage (init_system p) # messages s) = Inr supportResponse"
  shows "initialSupport p m s =
           ([Invoke (SystemMessage (init_system p) # messages s),
             StructuredInvoke ([SystemMessage (routing_system p)] @ messages s
                               @ [HumanMessage (routing_user p)])],
            case tool_call m ([SystemMessage (routing_system p)] @ messages s
                              @ [HumanMessage (routing_user p)]) of
              Inl reason \<Rightarrow> Inl (InvocationFailed reason)
            | Inr v \<Rightarrow>
                if v = ''RESPOND'' \<or> v = ''CERTIFICATION''
                then Inr \<lparr>upd_messages = Some (Several [supportResponse]),
                          upd_nextRepresentative = Some v,
                          upd_refundAuthorized = None\<rparr>
                else Inl (SchemaViolation v))
       \<and> (\<forall>u. snd (initialSupport p m s) = Inr u \<longrightarrow>
              upd_nextRepresentative u = Some ''RESPOND''
              \<or> upd_nextRepresentative u = Some ''CERTIFICATION'')
       \<and> (\<forall>v. structuredOutputModel m (routingMessages p s) = Inr v \<longrightarrow>
              v = ''RESPOND'' \<or> v = ''CERTIFICATION'')"
proof -
  let ?R = "[SystemMessage (routing_system p)] @ messages s @ [HumanMessage (routing_user p)]"
  have whole: "initialSupport p m s =
           ([Invoke (SystemMessage (init_system p) # messages s), StructuredInvoke ?R],
            case tool_call m ?R of
              Inl reason \<Rightarrow> Inl (InvocationFailed reason)
            | Inr v \<Rightarrow>
                if v = ''RESPOND'' \<or> v = ''CERTIFICATION''
                then Inr \<lparr>upd_messages = Some (Several [supportResponse]),
                          upd_nextRepresentative = Some v,
                          upd_refundAuthorized = None\<rparr>
                else Inl (SchemaViolation v))"
    using assms
    by (simp add: initialSupport_def structuredOutputModel_def routingSchema_def
        routingSchema_options_def routingMessages_def Let_def split: sum.splits)
  have label: "\<forall>u. snd (initialSupport p m s) = Inr u \<longrightarrow>
              upd_nextRepresentative u = Some ''RESPOND''
              \<or> upd_nextRepresentative u = Some ''CERTIFICATION''"
    by (auto simp: whole split: sum.splits if_splits)
  have schema: "\<forall>v. structuredOutputModel m (routingMessages p s) = Inr v \<longrightarrow>
              v = ''RESPOND'' \<or> v = ''CERTIFICATION''"
    by (auto simp: structuredOutputModel_def routingSchema_def routingSchema_options_def
        split: sum.splits if_splits)
  from whole label schema show ?thesis
    by (intro conjI)
qed

theorem initialSupport_classification_input_witness:
  "invoke (stub_llm ''RESPOND'') (SystemMessage (init_system test_prompts) # messages fresh_thread)
     = Inr (stub_reply ''initq1'')
   \<and> initialSupport test_prompts (stub_llm ''RESPOND'') fresh_thread =
       ([Invoke [SystemMessage ''init'', HumanMessage ''q1''],
         StructuredInvoke [SystemMessage ''route'', HumanMessage ''q1'', HumanMessage ''which?'']],
        Inr \<lparr>upd_messages = Some (Several [stub_reply ''initq1'']),
             upd_nextRepresentative = Some ''RESPOND'', upd_refundAuthorized = None\<rparr>)"
proof -
  let ?m = "stub_llm ''RESPOND''"
  have h: "invoke ?m (SystemMessage (init_system test_prompts) # messages fresh_thread)
             = Inr (stub_reply ''initq1'')"
    by (simp add: stub_llm_def test_prompts_def fresh_thread_def SystemMessage_def
        HumanMessage_def)
  have r: "initialSupport test_prompts ?m fresh_thread =
       ([Invoke [SystemMessage ''init'', HumanMessage ''q1''],
         StructuredInvoke [SystemMessage ''route'', HumanMessage ''q1'', HumanMessage ''which?'']],
        Inr \<lparr>upd_messages = Some (Several [stub_reply ''initq1'']),
             upd_nextRepresentative = Some ''RESPOND'', upd_refundAuthorized = None\<rparr>)"
    using initialSupport_classification_input [OF h, THEN conjunct1]
    by (simp add: stub_llm_def test_prompts_def fresh_thread_def)
  from h r show ?thesis
    by (intro conjI)
qed

section \<open>What the steps write\<close>

text \<open>
  C8: the update that the initial step returns names the messages channel and
  nextRepresentative and not refundAuthorized; the update that the certification
  step returns names the messages channel only. Merging either update into the state
  keeps the channels it does not name.
\<close>

theorem step_updates_frame:
  "(snd (initialSupport p m s) = Inr u \<longrightarrow>
      upd_messages u \<noteq> None \<and> upd_nextRepresentative u \<noteq> None \<and> upd_refundAuthorized u = None
      \<and> refundAuthorized (applyUpdate s u) = refundAuthorized s)
   \<and> (snd (certificationSupport p m s) = Inr u' \<longrightarrow>
      upd_messages u' \<noteq> None \<and> upd_nextRepresentative u' = None \<and> upd_refundAuthorized u' = None
      \<and> nextRepresentative (applyUpdate s u') = nextRepresentative s
      \<and> refundAuthorized (applyUpdate s u') = refundAuthorized s)"
  by (auto simp: initialSupport_def certificationSupport_def applyUpdate_def
      Let_def split: sum.splits)

theorem step_updates_frame_witness:
  "snd (initialSupport test_prompts (stub_llm ''CERTIFICATION'')
          (fresh_thread\<lparr>refundAuthorized := Some True\<rparr>))
     = Inr \<lparr>upd_messages = Some (Several [stub_reply ''initq1'']),
            upd_nextRepresentative = Some ''CERTIFICATION'', upd_refundAuthorized = None\<rparr>
   \<and> refundAuthorized
        (applyUpdate (fresh_thread\<lparr>refundAuthorized := Some True\<rparr>)
           \<lparr>upd_messages = Some (Several [stub_reply ''initq1'']),
            upd_nextRepresentative = Some ''CERTIFICATION'', upd_refundAuthorized = None\<rparr>)
       = Some True
   \<and> snd (certificationSupport test_prompts (stub_llm ''CERTIFICATION'')
          (fresh_thread\<lparr>refundAuthorized := Some True\<rparr>))
     = Inr \<lparr>upd_messages = Some (Single (stub_reply ''certq1'')),
            upd_nextRepresentative = None, upd_refundAuthorized = None\<rparr>
   \<and> nextRepresentative
        (applyUpdate (fresh_thread\<lparr>refundAuthorized := Some True\<rparr>)
           \<lparr>upd_messages = Some (Single (stub_reply ''certq1'')),
            upd_nextRepresentative = None, upd_refundAuthorized = None\<rparr>)
       = None"
proof -
  let ?s = "fresh_thread\<lparr>refundAuthorized := Some True\<rparr>"
  let ?m = "stub_llm ''CERTIFICATION''"
  let ?u = "\<lparr>upd_messages = Some (Several [stub_reply ''initq1'']),
            upd_nextRepresentative = Some ''CERTIFICATION'', upd_refundAuthorized = None\<rparr>"
  let ?u' = "\<lparr>upd_messages = Some (Single (stub_reply ''certq1'')),
            upd_nextRepresentative = None, upd_refundAuthorized = None\<rparr>"
  have i: "snd (initialSupport test_prompts ?m ?s) = Inr ?u"
    by (simp add: stub_llm_def test_prompts_def fresh_thread_def SystemMessage_def
        HumanMessage_def initialSupport_def structuredOutputModel_def routingSchema_def
        routingSchema_options_def Let_def)
  have c: "snd (certificationSupport test_prompts ?m ?s) = Inr ?u'"
    by (simp add: stub_llm_def test_prompts_def fresh_thread_def SystemMessage_def
        HumanMessage_def certificationSupport_def trimmedHistory_def at_minus1_def
        getType_def Let_def)
  note frame = step_updates_frame [of test_prompts ?m ?s ?u ?u']
  have r: "refundAuthorized (applyUpdate ?s ?u) = Some True"
    using frame i by (simp add: fresh_thread_def)
  have n: "nextRepresentative (applyUpdate ?s ?u') = None"
    using frame c by (simp add: fresh_thread_def)
  from i r c n show ?thesis
    by (intro conjI)
qed

section \<open>The certification step on the empty history\<close>

text \<open>
  C9: on the empty message list the certification step fails with a TypeError in
  its trimming guard, before any invocation of the model; on a non-empty list the
  guard succeeds and the model is invoked.
\<close>

theorem certificationSupport_empty_history:
  "(messages s = [] \<longrightarrow> certificationSupport p m s = ([], Inl TypeError))
   \<and> (messages s \<noteq> [] \<longrightarrow>
        (\<exists>h. trimmedHistory s = Inr h
             \<and> fst (certificationSupport p m s)
                 = [Invoke (SystemMessage (certification_system p) # h)]))"
  using trimmedHistory_empty [of s] trimmedHistory_nonempty [of s]
    certificationSupport_calls [of s _ p m]
  by (auto simp: certificationSupport_def)

theorem certificationSupport_empty_history_witness:
  "messages (fresh_thread\<lparr>messages := []\<rparr>) = []
   \<and> certificationSupport test_prompts (stub_llm ''CERTIFICATION'') (fresh_thread\<lparr>messages := []\<rparr>)
       = ([], Inl TypeError)
   \<and> messages fresh_thread \<noteq> []
   \<and> fst (certificationSupport test_prompts (stub_llm ''CERTIFICATION'') fresh_thread)
       = [Invoke [SystemMessage ''cert'', HumanMessage ''q1'']]"
  using certificationSupport_empty_history
          [of "fresh_thread\<lparr>messages := []\<rparr>" test_prompts "stub_llm ''CERTIFICATION''"]
        certificationSupport_empty_history
          [of fresh_thread test_prompts "stub_llm ''CERTIFICATION''"]
  by (auto simp: fresh_thread_def test_prompts_def trimmedHistory_def at_minus1_def
      getType_def HumanMessage_def)

section \<open>The whole workflow on the certification branch\<close>

text \<open>
  C5 as stated does not hold for every invocation: on a thread that already holds
  an assistant message, with the classifier stubbed to CERTIFICATION, the final
  message list holds three assistant-authored messages.
\<close>

theorem certification_run_counterexample:
  "tool_call (stub_llm ''CERTIFICATION'') (routingMessages test_prompts resumed_thread)
     = Inr ''CERTIFICATION''
   \<and> map_option visited (app_stream 4 test_prompts (stub_llm ''CERTIFICATION'') resumed_thread)
     = Some [''__start__'', ''initial_support'', ''certification_support'', ''__end__'']
   \<and> assistant_count (app_stream 4 test_prompts (stub_llm ''CERTIFICATION'') resumed_thread)
     = Some 3"
  by code_simp

text \<open>
  C5, amended: when the model answers both steps with assistant messages whose
  identifiers are not already in the history, and the classifier returns
  CERTIFICATION, the run enters the initial node, then the certification node, then
  the end, for every bound of at least four nodes; the final message list is the
  input history followed by the initial reply and then the certification reply, so
  its assistant-authored messages are those of the input followed by these two
  replies, and there are exactly two of them when the input history has none.
\<close>

theorem certification_run:
  assumes "invoke m (SystemMessage (init_system p) # messages s) = Inr r1"
    and "tool_call m (routingMessages p s) = Inr ''CERTIFICATION''"
    and "getType r1 = ''ai''"
    and "invoke m (SystemMessage (certification_system p) # messages s) = Inr r2"
    and "getType r2 = ''ai''"
    and "fresh_id r1 (messages s)"
    and "fresh_id r2 (messages s @ [r1])"
  shows "app_stream (4 + k) p m s =
           Some \<lparr>visited = [''__start__'', ''initial_support'', ''certification_support'', ''__end__''],
                 calls = [Invoke (SystemMessage (init_system p) # messages s),
                          StructuredInvoke (routingMessages p s),
                          Invoke (SystemMessage (certification_system p) # messages s)],
                 outcome = Inr (s\<lparr>messages := messages s @ [r1, r2],
                                   nextRepresentative := Some ''CERTIFICATION''\<rparr>)\<rparr>
       \<and> assistant_messages (s\<lparr>messages := messages s @ [r1, r2],
                                 nextRepresentative := Some ''CERTIFICATION''\<rparr>)
           = assistant_messages s @ [r1, r2]
       \<and> (assistant_messages s = [] \<longrightarrow> assistant_count (app_stream (4 + k) p m s) = Some 2)"
proof -
  let ?s1 = "applyUpdate s \<lparr>upd_messages = Some (Several [r1]),
                 upd_nextRepresentative = Some ''CERTIFICATION'',
                 upd_refundAuthorized = None\<rparr>"
  let ?s2 = "applyUpdate ?s1 \<lparr>upd_messages = Some (Single r2),
                 upd_nextRepresentative = None,
                 upd_refundAuthorized = None\<rparr>"
  have start: "run_node p m ''__start__'' s = ([], Inr s)"
    by (simp add: run_node_def)
  have e0: "workflow_edge ''__start__'' s = Inr ''initial_support''"
    by (simp add: workflow_edge_def)
  have init: "run_node p m ''initial_support'' s =
      ([Invoke (SystemMessage (init_system p) # messages s),
        StructuredInvoke (routingMessages p s)], Inr ?s1)"
    using initialSupport_success [OF assms(1,2)]
    by (simp add: run_node_def workflow_nodes_def routingSchema_options_def)
  have m1: "messages ?s1 = messages s @ [r1]"
    by (simp add: applyUpdate_def reducer_fresh(2) [OF assms(6)])
  have e1: "workflow_edge ''initial_support'' ?s1 = Inr ''certification_support''"
    by (simp add: workflow_edge_def router_def pathMap_def applyUpdate_def)
  have cert: "run_node p m ''certification_support'' ?s1 =
      ([Invoke (SystemMessage (certification_system p) # messages s)], Inr ?s2)"
    using certificationSupport_success [OF m1 assms(3,4)]
    by (simp add: run_node_def workflow_nodes_def)
  have e2: "workflow_edge ''certification_support'' ?s2 = Inr ''__end__''"
    by (simp add: workflow_edge_def)
  have m2: "messages ?s2 = messages s @ [r1, r2]"
    using reducer_fresh(1) [OF assms(7)] m1 by (simp add: applyUpdate_def)
  have s2: "?s2 = s\<lparr>messages := messages s @ [r1, r2],
                     nextRepresentative := Some ''CERTIFICATION''\<rparr>"
    using m2 by (simp add: applyUpdate_def)
  have fuel: "4 + k = Suc (Suc (Suc (Suc k)))"
    by simp
  have run: "app_stream (4 + k) p m s =
           Some \<lparr>visited = [''__start__'', ''initial_support'', ''certification_support'', ''__end__''],
                 calls = [Invoke (SystemMessage (init_system p) # messages s),
                          StructuredInvoke (routingMessages p s),
                          Invoke (SystemMessage (certification_system p) # messages s)],
                 outcome = Inr ?s2\<rparr>"
    unfolding app_stream_def fuel
    by (simp add: start e0 init e1 cert e2 extend_run_def del: One_nat_def)
  have am: "assistant_messages ?s2 = assistant_messages s @ [r1, r2]"
    using assms(3,5) by (simp add: s2 assistant_messages_def is_assistant_def)
  have cnt: "assistant_messages s = [] \<longrightarrow>
             assistant_count (app_stream (4 + k) p m s) = Some 2"
    using am by (simp add: run assistant_count_def)
  show ?thesis using run am cnt by (simp only: s2)
qed

theorem certification_run_witness:
  "invoke (stub_llm ''CERTIFICATION'') (SystemMessage (init_system test_prompts) # messages fresh_thread)
     = Inr (stub_reply ''initq1'')
   \<and> tool_call (stub_llm ''CERTIFICATION'') (routingMessages test_prompts fresh_thread)
     = Inr ''CERTIFICATION''
   \<and> getType (stub_reply ''initq1'') = ''ai''
   \<and> invoke (stub_llm ''CERTIFICATION'')
        (SystemMessage (certification_system test_prompts) # messages fresh_thread)
     = Inr (stub_reply ''certq1'')
   \<and> getType (stub_reply ''certq1'') = ''ai''
   \<and> fresh_id (stub_reply ''initq1'') (messages fresh_thread)
   \<and> fresh_id (stub_reply ''certq1'') (messages fresh_thread @ [stub_reply ''initq1''])
   \<and> assistant_messages fresh_thread = []
   \<and> map_option outcome (app_stream 4 test_prompts (stub_llm ''CERTIFICATION'') fresh_thread)
     = Some (Inr \<lparr>messages = [HumanMessage ''q1'', stub_reply ''initq1'', stub_reply ''certq1''],
                  nextRepresentative = Some ''CERTIFICATION'', refundAuthorized = None\<rparr>)
   \<and> assistant_count (app_stream 4 test_prompts (stub_llm ''CERTIFICATION'') fresh_thread) = Some 2"
proof -
  let ?m = "stub_llm ''CERTIFICATION''"
  let ?r1 = "stub_reply ''initq1''"
  let ?r2 = "stub_reply ''certq1''"
  have h1: "invoke ?m (SystemMessage (init_system test_prompts) # messages fresh_thread) = Inr ?r1"
    by (simp add: stub_llm_def test_prompts_def fresh_thread_def SystemMessage_def
        HumanMessage_def)
  have h2: "tool_call ?m (routingMessages test_prompts fresh_thread) = Inr ''CERTIFICATION''"
    by (simp add: stub_llm_def)
  have h3: "getType ?r1 = ''ai''"
    by (simp add: getType_def stub_reply_def)
  have h4: "invoke ?m (SystemMessage (certification_system test_prompts) # messages fresh_thread)
              = Inr ?r2"
    by (simp add: stub_llm_def test_prompts_def fresh_thread_def SystemMessage_def
        HumanMessage_def)
  have h5: "getType ?r2 = ''ai''"
    by (simp add: getType_def stub_reply_def)
  have h6: "fresh_id ?r1 (messages fresh_thread)"
    by (simp add: fresh_id_def stub_reply_def fresh_thread_def HumanMessage_def)
  have h7: "fresh_id ?r2 (messages fresh_thread @ [?r1])"
    by (simp add: fresh_id_def stub_reply_def fresh_thread_def HumanMessage_def)
  have h8: "assistant_messages fresh_thread = []"
    by (simp add: assistant_messages_def is_assistant_def fresh_thread_def getType_def
        HumanMessage_def)
  note run = certification_run [OF h1 h2 h3 h4 h5 h6 h7, of 0]
  have final: "fresh_thread\<lparr>messages := messages fresh_thread @ [?r1, ?r2],
                            nextRepresentative := Some ''CERTIFICATION''\<rparr>
               = \<lparr>messages = [HumanMessage ''q1'', ?r1, ?r2],
                  nextRepresentative = Some ''CERTIFICATION'', refundAuthorized = None\<rparr>"
    by (simp add: fresh_thread_def)
  have out: "map_option outcome (app_stream 4 test_prompts ?m fresh_thread)
               = Some (Inr \<lparr>messages = [HumanMessage ''q1'', ?r1, ?r2],
                            nextRepresentative = Some ''CERTIFICATION'',
                            refundAuthorized = None\<rparr>)"
    using run [THEN conjunct1] by (simp add: final)
  have cnt: "assistant_count (app_stream 4 test_prompts ?m fresh_thread) = Some 2"
    using run [THEN conjunct2, THEN conjunct2] h8 by simp
  from h1 h2 h3 h4 h5 h6 h7 h8 out cnt show ?thesis
    by (intro conjI)
qed

section \<open>The SQL assistant\<close>

text \<open>
  C4: when the connection attempt fails, the bootstrap logs the error, exits with
  status 1, and performs nothing else: the database wrapper, the toolkit, the tool
  set and the agent are not constructed.
\<close>

theorem bootstrap_connect_failure:
  assumes "initialize env = Some err"
  shows "bootstrap env =
           ([Initialize, ConsoleError connect_error_text err, ProcessExit 1], Exited 1)
       \<and> FromDataSourceParams \<notin> set (fst (bootstrap env))
       \<and> NewSqlToolkit \<notin> set (fst (bootstrap env))
       \<and> GetTools \<notin> set (fst (bootstrap env))
       \<and> CreateReactAgent \<notin> set (fst (bootstrap env))"
  using assms by (simp add: bootstrap_def)

theorem bootstrap_connect_failure_witness:
  "initialize \<lparr>initialize = Some ''ECONNREFUSED'', fromDataSourceParams = None, getTools = []\<rparr>
     = Some ''ECONNREFUSED''
   \<and> snd (bootstrap \<lparr>initialize = Some ''ECONNREFUSED'', fromDataSourceParams = None,
                      getTools = []\<rparr>) = Exited 1"
  using bootstrap_connect_failure
    [of "\<lparr>initialize = Some ''ECONNREFUSED'', fromDataSourceParams = None, getTools = []\<rparr>"
        "''ECONNREFUSED''"]
  by simp

text \<open>
  C7: the system prompt of the SQL assistant contains, character for character, the
  directive to reply in Korean and the directive to search the certification table
  by exact match first.
\<close>

theorem systemPrompt_directives:
  "str_includes systemPrompt ''ALWAYS reply in korean.''
   \<and> str_includes systemPrompt
        ''ALWAYS search the 'product' and 'category' in 'certification' table using exact match first.''"
  by (simp add: systemPrompt_def)

end
